theory Spec2Isabelle
  imports Main "HOL-Library.Log_Nat"
begin

section \<open>Python strings\<close>

text \<open>
  A Python \<open>str\<close> is a sequence of Unicode code points and \<open>len\<close> counts code points,
  so a string is a list of code points. Literals of the source are written with \<open>str\<close>.
\<close>

type_synonym codepoint = nat
type_synonym pystr = "codepoint list"

definition str :: "string \<Rightarrow> pystr" where
  "str s = map of_char s"

text \<open>
  \<open>str.isspace\<close> of CPython for one code point: the characters that \<open>str.strip()\<close>
  without an argument removes.
\<close>

definition is_space :: "codepoint \<Rightarrow> bool" where
  "is_space c \<longleftrightarrow>
     (9 \<le> c \<and> c \<le> 13) \<or> (28 \<le> c \<and> c \<le> 32) \<or> c = 133 \<or> c = 160 \<or> c = 5760 \<or>
     (8192 \<le> c \<and> c \<le> 8202) \<or> c = 8232 \<or> c = 8233 \<or> c = 8239 \<or> c = 8287 \<or> c = 12288"

text \<open>\<open>s.strip(chars)\<close>: drops from both ends while the character is in the set.\<close>

definition strip_by :: "(codepoint \<Rightarrow> bool) \<Rightarrow> pystr \<Rightarrow> pystr" where
  "strip_by P s = rev (dropWhile P (rev (dropWhile P s)))"

definition py_strip :: "pystr \<Rightarrow> pystr" where
  "py_strip s = strip_by is_space s"

text \<open>The argument of \<open>.strip('"\'')\<close>: the double quote (34) and the apostrophe (39).\<close>

definition is_quote :: "codepoint \<Rightarrow> bool" where
  "is_quote c \<longleftrightarrow> c = 34 \<or> c = 39"

text \<open>
  \<open>_clean_tweet\<close> lower-cases the text only to compare it with five ASCII prefixes. For
  that test the whole case table of the runtime is not needed: \<open>lower_cp\<close> gives the lower
  case of the code points U+0000..U+00FF, of U+0130 (lower case \<open>i\<close> followed by U+0307) and
  of U+212A (KELVIN SIGN, lower case \<open>k\<close>), which are all the code points whose lower case
  contains an ASCII character, and stands in for every other code point with the code
  point itself, which like its true lower case is a single code point outside ASCII. So
  \<open>py_lower text\<close> and \<open>text.lower()\<close> have the same ASCII prefixes (see
  \<open>startswith_concat_ascii\<close> below); \<open>py_lower\<close> is used for nothing else.
\<close>

definition lower_cp :: "codepoint \<Rightarrow> pystr" where
  "lower_cp c =
     (if 65 \<le> c \<and> c \<le> 90 then [c + 32]
      else if 192 \<le> c \<and> c \<le> 222 \<and> c \<noteq> 215 then [c + 32]
      else if c = 304 then [105, 775]
      else if c = 8490 then [107]
      else [c])"

definition py_lower :: "pystr \<Rightarrow> pystr" where
  "py_lower s = concat (map lower_cp s)"

definition startswith :: "pystr \<Rightarrow> pystr \<Rightarrow> bool" where
  "startswith s p \<longleftrightarrow> take (length p) s = p"

text \<open>\<open>sep.join(parts)\<close>.\<close>

fun py_join :: "pystr \<Rightarrow> pystr list \<Rightarrow> pystr" where
  "py_join sep [] = []"
| "py_join sep [x] = x"
| "py_join sep (x # y # ys) = x @ sep @ py_join sep (y # ys)"

section \<open>Content generator: \<open>_clean_tweet\<close>\<close>

text \<open>
  \<^verbatim>\<open>
  text = text.strip().strip('"\'')
  prefixes = ["tweet:", "reply:", "response:", "here's the tweet:", "here is the tweet:"]
  for prefix in prefixes:
      if text.lower().startswith(prefix):
          text = text[len(prefix):].strip()
  if len(text) > 280:
      text = text[:277] + "..."
  return text.strip()
  \<close>
\<close>

definition prefixes :: "pystr list" where
  "prefixes = [str ''tweet:'', str ''reply:'', str ''response:'',
               str ''here's the tweet:'', str ''here is the tweet:'']"

definition strip_prefix :: "pystr \<Rightarrow> pystr \<Rightarrow> pystr" where
  "strip_prefix text prefix =
     (if startswith (py_lower text) prefix then py_strip (drop (length prefix) text) else text)"

definition truncate_280 :: "pystr \<Rightarrow> pystr" where
  "truncate_280 text = (if length text > 280 then take 277 text @ str ''...'' else text)"

definition clean_tweet :: "pystr \<Rightarrow> pystr" where
  "clean_tweet text =
     py_strip (truncate_280 (foldl strip_prefix (strip_by is_quote (py_strip text)) prefixes))"

text \<open>
  Text on which \<open>_clean_tweet\<close> has nothing left to remove: no quote character at
  either end, and none of the label prefixes at the start (case-insensitively).
\<close>

definition trimmed :: "(codepoint \<Rightarrow> bool) \<Rightarrow> pystr \<Rightarrow> bool" where
  "trimmed P u \<longleftrightarrow> u = [] \<or> (\<not> P (hd u) \<and> \<not> P (last u))"

definition already_clean :: "pystr \<Rightarrow> bool" where
  "already_clean t \<longleftrightarrow>
     trimmed is_quote t \<and> (\<forall>p \<in> set prefixes. \<not> startswith (py_lower t) p)"

section \<open>Python values and dictionaries\<close>

text \<open>
  The values a style profile holds: what \<open>json.loads\<close> can return, with a \<open>float\<close> given by
  the rational number it denotes. A \<open>dict\<close> is an association list in insertion order with
  one entry per key; \<open>map_of\<close> reads it.
\<close>

datatype pyval =
    VNone
  | VBool bool
  | VInt int
  | VFloat rat
  | VStr pystr
  | VList "pyval list"
  | VDict "(pystr \<times> pyval) list"

type_synonym pydict = "(pystr \<times> pyval) list"

datatype exn =
    ValueError | ZeroDivisionError | OverflowError | KeyError | AttributeError
  | JSONDecodeError | OtherException

text \<open>\<open>bool(v)\<close>, as used by \<open>if not v\<close>.\<close>

fun truthy :: "pyval \<Rightarrow> bool" where
  "truthy VNone = False"
| "truthy (VBool b) = b"
| "truthy (VInt n) = (n \<noteq> 0)"
| "truthy (VFloat x) = (x \<noteq> 0)"
| "truthy (VStr s) = (s \<noteq> [])"
| "truthy (VList l) = (l \<noteq> [])"
| "truthy (VDict d) = (d \<noteq> [])"

text \<open>\<open>d[k] = v\<close> and \<open>d.update(other)\<close>.\<close>

fun dict_set :: "pystr \<Rightarrow> pyval \<Rightarrow> pydict \<Rightarrow> pydict" where
  "dict_set k v [] = [(k, v)]"
| "dict_set k v ((k', v') # d) =
     (if k' = k then (k, v) # d else (k', v') # dict_set k v d)"

definition dict_update :: "pydict \<Rightarrow> pydict \<Rightarrow> pydict" where
  "dict_update d other = foldl (\<lambda>d kv. dict_set (fst kv) (snd kv) d) d other"

section \<open>Floating point\<close>

text \<open>
  A finite \<open>float\<close> is the rational it denotes. \<open>fl q\<close> is the IEEE 754 binary64 number
  nearest to \<open>q\<close>, ties to even, with gradual underflow (least exponent \<open>-1074\<close>);
  a result of magnitude \<open>2 ^ 1024\<close> or more stands for an overflow, which the operations
  below turn into \<open>OverflowError\<close> where Python raises it.
\<close>

definition pow2 :: "int \<Rightarrow> rat" where
  "pow2 k = (if 0 \<le> k then 2 ^ nat k else 1 / 2 ^ nat (- k))"

text \<open>
  \<open>ilog2 q\<close> is \<open>\<lfloor>log 2 q\<rfloor>\<close> for a positive \<open>q\<close>: one less than the bit length of \<open>\<lfloor>q\<rfloor>\<close> from
  \<open>1\<close> on, and below \<open>1\<close> the negated bit length of \<open>\<lceil>1 / q\<rceil> - 1\<close>.
\<close>

definition ilog2 :: "rat \<Rightarrow> int" where
  "ilog2 q = (if 1 \<le> q then bitlen \<lfloor>q\<rfloor> - 1 else - bitlen (\<lceil>1 / q\<rceil> - 1))"

definition fl :: "rat \<Rightarrow> rat" where
  "fl q =
     (if q = 0 then 0
      else let a = \<bar>q\<bar>;
               e = max (ilog2 a - 52) (- 1074);
               m = a / pow2 e;
               f = \<lfloor>m\<rfloor>;
               r = m - of_int f;
               n = (if 1 / 2 < r \<or> (r = 1 / 2 \<and> odd f) then f + 1 else f)
           in sgn q * of_int n * pow2 e)"

definition overflows :: "rat \<Rightarrow> bool" where
  "overflows x \<longleftrightarrow> 2 ^ 1024 \<le> \<bar>x\<bar>"

text \<open>\<open>float(n)\<close> for an \<open>int\<close>, \<open>x * y\<close> on floats and \<open>int(x)\<close> (towards zero).\<close>

definition float_of_int :: "int \<Rightarrow> exn + rat" where
  "float_of_int n = (if overflows (fl (of_int n)) then Inl OverflowError else Inr (fl (of_int n)))"

definition int_of_float :: "rat \<Rightarrow> int" where
  "int_of_float x = (if 0 \<le> x then \<lfloor>x\<rfloor> else \<lceil>x\<rceil>)"

text \<open>
  \<open>int(n * c)\<close> for an \<open>int n\<close> and a float literal \<open>c\<close>: \<open>n\<close> is converted, the product is
  rounded, and an infinite product makes \<open>int\<close> raise \<open>OverflowError\<close>.
\<close>

definition int_mul_float :: "int \<Rightarrow> rat \<Rightarrow> exn + int" where
  "int_mul_float n c =
     (case float_of_int n of
        Inl e \<Rightarrow> Inl e
      | Inr x \<Rightarrow>
          if overflows (fl (x * c)) then Inl OverflowError
          else Inr (int_of_float (fl (x * c))))"

text \<open>
  \<open>a / b\<close> on non-negative \<open>int\<close>s with \<open>b > 0\<close>: the correctly rounded quotient. (It would
  raise \<open>OverflowError\<close> from \<open>2 ^ 1024\<close> on, which no count of characters reaches.)
\<close>

definition true_div :: "nat \<Rightarrow> nat \<Rightarrow> rat" where
  "true_div a b = fl (of_nat a / of_nat b)"

section \<open>Style analyzer: quantitative analysis\<close>

text \<open>
  \<open>re.split(r'[.!?]+', text)\<close> and \<open>str.split()\<close> cut at maximal runs of separator
  characters. \<open>split_runs P acc sep s\<close> scans \<open>s\<close> with the piece read so far in \<open>acc\<close>
  (reversed) and \<open>sep\<close> telling that the previous character was a separator.
\<close>

fun split_runs :: "(codepoint \<Rightarrow> bool) \<Rightarrow> pystr \<Rightarrow> bool \<Rightarrow> pystr \<Rightarrow> pystr list" where
  "split_runs P acc sep [] = [rev acc]"
| "split_runs P acc sep (c # cs) =
     (if P c then (if sep then split_runs P [] True cs else rev acc # split_runs P [] True cs)
      else split_runs P (c # acc) False cs)"

definition re_split :: "(codepoint \<Rightarrow> bool) \<Rightarrow> pystr \<Rightarrow> pystr list" where
  "re_split P s = split_runs P [] False s"

definition py_split :: "pystr \<Rightarrow> pystr list" where
  "py_split s = filter (\<lambda>w. w \<noteq> []) (re_split is_space s)"

definition is_sentence_end :: "codepoint \<Rightarrow> bool" where
  "is_sentence_end c \<longleftrightarrow> c = 46 \<or> c = 33 \<or> c = 63"

text \<open>
  \<^verbatim>\<open>
  sentences = re.split(r'[.!?]+', text)
  sentences = [s.strip() for s in sentences if s.strip()]
  if not sentences: return 0.0
  total_words = sum(len(s.split()) for s in sentences)
  return total_words / len(sentences)
  \<close>
\<close>

definition calculate_avg_sentence_length :: "pystr \<Rightarrow> rat" where
  "calculate_avg_sentence_length text =
     (let sentences = map py_strip (filter (\<lambda>s. py_strip s \<noteq> []) (re_split is_sentence_end text))
      in if sentences = [] then 0
         else true_div (sum_list (map (\<lambda>s. length (py_split s)) sentences)) (length sentences))"

text \<open>
  The character class \<open>\w\<close> of the \<open>re\<close> module (Unicode alphanumerics and the underscore) is a
  table of the Python runtime; the functions that match \<open>\w\<close> take it as the parameter
  \<open>word\<close>. \<open>ascii_word\<close> is that class on ASCII text.

  \<open>re.findall(r'\b\w+\b', text)\<close> returns the maximal runs of word characters.
\<close>

definition ascii_word :: "codepoint \<Rightarrow> bool" where
  "ascii_word c \<longleftrightarrow> (48 \<le> c \<and> c \<le> 57) \<or> (65 \<le> c \<and> c \<le> 90) \<or> c = 95 \<or> (97 \<le> c \<and> c \<le> 122)"

definition find_words :: "(codepoint \<Rightarrow> bool) \<Rightarrow> pystr \<Rightarrow> pystr list" where
  "find_words word text = filter (\<lambda>w. w \<noteq> []) (re_split (\<lambda>c. \<not> word c) text)"

definition calculate_avg_word_length :: "(codepoint \<Rightarrow> bool) \<Rightarrow> pystr \<Rightarrow> rat" where
  "calculate_avg_word_length word text =
     (let words = find_words word text
      in if words = [] then 0
         else true_div (sum_list (map length words)) (length words))"

text \<open>
  \<open>len(re.findall(r'#\w+', text))\<close>: a match starts at a \<open>#\<close> that a word character follows
  and takes the whole run of word characters. The scan remembers whether the previous
  character was a \<open>#\<close> outside a match (\<open>hash\<close>) and whether it is inside a match (\<open>run\<close>).
\<close>

fun count_hashtags :: "(codepoint \<Rightarrow> bool) \<Rightarrow> bool \<Rightarrow> bool \<Rightarrow> pystr \<Rightarrow> nat" where
  "count_hashtags word hash run [] = 0"
| "count_hashtags word hash run (c # cs) =
     (if run \<and> word c then count_hashtags word False True cs
      else if hash \<and> word c then Suc (count_hashtags word False True cs)
      else count_hashtags word (c = 35) False cs)"

text \<open>The class \<open>[U+1F600-U+1F64F U+1F300-U+1F5FF U+1F680-U+1F6FF]\<close> of the emoji pattern.\<close>

definition is_emoji :: "codepoint \<Rightarrow> bool" where
  "is_emoji c \<longleftrightarrow>
     (128512 \<le> c \<and> c \<le> 128591) \<or> (127744 \<le> c \<and> c \<le> 128511) \<or> (128640 \<le> c \<and> c \<le> 128767)"

text \<open>\<open>count / len(samples) if samples else 0\<close>: a float, or the int \<open>0\<close>.\<close>

definition frequency :: "nat \<Rightarrow> pystr list \<Rightarrow> pyval" where
  "frequency n samples = (if samples \<noteq> [] then VFloat (true_div n (length samples)) else VInt 0)"

definition quantitative_analysis :: "(codepoint \<Rightarrow> bool) \<Rightarrow> pystr list \<Rightarrow> pydict" where
  "quantitative_analysis word samples =
     (let total_text = py_join (str '' '') samples;
          avg_sentence_length = calculate_avg_sentence_length total_text;
          avg_word_length = calculate_avg_word_length word total_text;
          emoji_count = length (filter is_emoji total_text);
          hashtag_count = count_hashtags word False False total_text;
          exclamation_count = count_list total_text 33;
          question_count = count_list total_text 63
      in [(str ''avg_sentence_length'', VFloat avg_sentence_length),
          (str ''avg_word_length'', VFloat avg_word_length),
          (str ''emoji_frequency'', frequency emoji_count samples),
          (str ''hashtag_frequency'', frequency hashtag_count samples),
          (str ''exclamation_frequency'', frequency exclamation_count samples),
          (str ''question_frequency'', frequency question_count samples)])"

section \<open>Style analyzer: \<open>analyze_samples\<close>\<close>

text \<open>
  \<open>quantitative[key] > threshold\<close> in \<open>_create_default_profile\<close>. The key is one that
  \<open>quantitative_analysis\<close> always sets to a number, so the \<open>KeyError\<close> and \<open>TypeError\<close> of
  Python do not arise there; the last equation only makes the function total.
\<close>

fun greater_than :: "pyval option \<Rightarrow> rat \<Rightarrow> bool" where
  "greater_than (Some (VFloat x)) y = (y < x)"
| "greater_than (Some (VInt n)) y = (y < of_int n)"
| "greater_than _ y = False"

text \<open>
  \<^verbatim>\<open>
  quantitative = self._quantitative_analysis(samples)
  return {
      "tone": "neutral", "voice": "conversational", "vocabulary_level": "moderate",
      "sentence_style": "varied", "punctuation_patterns": ["standard"],
      "emoji_usage": "moderate" if quantitative["emoji_frequency"] > 0.5 else "rare",
      "hashtag_style": "occasional" if quantitative["hashtag_frequency"] > 0.2 else "none",
      "common_phrases": [], "personality_traits": ["informative"],
      "topics_of_interest": [], "writing_quirks": [],
      **quantitative
  }
  \<close>
  The literals \<open>0.5\<close> and \<open>0.2\<close> are the floats \<open>1 / 2\<close> and \<open>fl (1 / 5)\<close>.
\<close>

definition create_default_profile :: "(codepoint \<Rightarrow> bool) \<Rightarrow> pystr list \<Rightarrow> pydict" where
  "create_default_profile word samples =
     (let quantitative = quantitative_analysis word samples
      in dict_update
           [(str ''tone'', VStr (str ''neutral'')),
            (str ''voice'', VStr (str ''conversational'')),
            (str ''vocabulary_level'', VStr (str ''moderate'')),
            (str ''sentence_style'', VStr (str ''varied'')),
            (str ''punctuation_patterns'', VList [VStr (str ''standard'')]),
            (str ''emoji_usage'',
               VStr (if greater_than (map_of quantitative (str ''emoji_frequency'')) (1 / 2)
                     then str ''moderate'' else str ''rare'')),
            (str ''hashtag_style'',
               VStr (if greater_than (map_of quantitative (str ''hashtag_frequency'')) (fl (1 / 5))
                     then str ''occasional'' else str ''none'')),
            (str ''common_phrases'', VList []),
            (str ''personality_traits'', VList [VStr (str ''informative'')]),
            (str ''topics_of_interest'', VList []),
            (str ''writing_quirks'', VList [])]
           quantitative)"

text \<open>
  What \<open>analyze_samples\<close> needs from outside: the AI client's \<open>analyze\<close> (\<open>Inl\<close> when it
  raises), and the two library calls of \<open>_extract_json\<close>, \<open>re.search\<close> with the brace
  pattern (the matched text, if any) and \<open>json.loads\<close> (\<open>Inl JSONDecodeError\<close> on invalid
  JSON, another exception otherwise), and the class \<open>\w\<close>.
\<close>

record analyzer_env =
  ai_analyze :: "pystr \<Rightarrow> exn + pystr"
  re_search :: "pystr \<Rightarrow> pystr option"
  json_loads :: "pystr \<Rightarrow> exn + pyval"
  word_class :: "codepoint \<Rightarrow> bool"

text \<open>
  \<^verbatim>\<open>
  json_match = re.search(r'\{[^{}]*(?:\{[^{}]*\}[^{}]*)*\}', text, re.DOTALL)
  if json_match:
      try: return json.loads(json_match.group())
      except json.JSONDecodeError: pass
  try: return json.loads(text)
  except json.JSONDecodeError: return None
  \<close>
  A match is never empty (it holds both braces), so \<open>if json_match\<close> only tests that there
  is one.
\<close>

definition loads_whole :: "analyzer_env \<Rightarrow> pystr \<Rightarrow> exn + pyval" where
  "loads_whole env text =
     (case json_loads env text of
        Inr v \<Rightarrow> Inr v
      | Inl JSONDecodeError \<Rightarrow> Inr VNone
      | Inl e \<Rightarrow> Inl e)"

definition extract_json :: "analyzer_env \<Rightarrow> pystr \<Rightarrow> exn + pyval" where
  "extract_json env text =
     (case re_search env text of
        None \<Rightarrow> loads_whole env text
      | Some m \<Rightarrow>
          (case json_loads env m of
             Inr v \<Rightarrow> Inr v
           | Inl JSONDecodeError \<Rightarrow> loads_whole env text
           | Inl e \<Rightarrow> Inl e))"

text \<open>
  The analyzer object: its one mutable field. The result of a call is the returned
  dictionary, the analyzer after the call and the texts sent to the AI client, in order.
  The prompt is a fixed instruction text around \<open>combined_text[:8000]\<close>; the call is
  recorded by that variable part.

  \<^verbatim>\<open>
  if not samples: return {}
  combined_text = "\n\n---\n\n".join(samples[:10])
  prompt = f"""... {combined_text[:8000]} ..."""
  try:
      response = self.ai_client.analyze(prompt)
      style_profile = self._extract_json(response)
      if not style_profile:
          return self._create_default_profile(samples)
      style_profile.update(self._quantitative_analysis(samples))
      self.style_profile = style_profile
      return style_profile
  except Exception as e:
      return self._create_default_profile(samples)
  \<close>
  \<open>update\<close> exists on a \<open>dict\<close> only: on any other non-empty JSON value the attribute
  lookup raises \<open>AttributeError\<close>, which the handler turns into the default profile.
\<close>

record analyzer =
  style_profile :: "pydict option"

definition separator :: pystr where
  "separator = [10, 10, 45, 45, 45, 10, 10]"

definition analyze_samples ::
    "analyzer_env \<Rightarrow> pystr list \<Rightarrow> analyzer \<Rightarrow> pydict \<times> analyzer \<times> pystr list" where
  "analyze_samples env samples self =
     (if samples = [] then ([], self, [])
      else
        let combined_text = py_join separator (take 10 samples);
            prompt = take 8000 combined_text
        in case ai_analyze env prompt of
             Inl e \<Rightarrow> (create_default_profile (word_class env) samples, self, [prompt])
           | Inr response \<Rightarrow>
               (case extract_json env response of
                  Inl e \<Rightarrow> (create_default_profile (word_class env) samples, self, [prompt])
                | Inr v \<Rightarrow>
                    if \<not> truthy v
                    then (create_default_profile (word_class env) samples, self, [prompt])
                    else (case v of
                            VDict d \<Rightarrow>
                              let p = dict_update d (quantitative_analysis (word_class env) samples)
                              in (p, self\<lparr>style_profile := Some p\<rparr>, [prompt])
                          | _ \<Rightarrow>
                              (create_default_profile (word_class env) samples, self, [prompt]))))"

text \<open>
  An environment in which the AI client fails on every request, as it does without a
  network or with a rejected key.
\<close>

definition failing_env :: analyzer_env where
  "failing_env =
     \<lparr>ai_analyze = (\<lambda>prompt. Inl OtherException), re_search = (\<lambda>text. None),
      json_loads = (\<lambda>text. Inl JSONDecodeError), word_class = ascii_word\<rparr>"

section \<open>Configuration\<close>

text \<open>
  \<open>Config.get(key, default)\<close> returns the default when the key is missing from the YAML
  settings or set to null, and the configured value otherwise (also when that value is
  \<open>0\<close> or an empty list). Each setting read by the modelled code is one optional field,
  typed as the code uses it.
\<close>

record config =
  posting_hours_start :: "int option"
  posting_hours_end :: "int option"
  max_posts_per_day :: "int option"
  reply_probability :: "rat option"
  keywords_to_monitor :: "pystr list option"
  max_replies_per_check :: "int option"

definition config_get :: "'a option \<Rightarrow> 'a \<Rightarrow> 'a" where
  "config_get v d = (case v of None \<Rightarrow> d | Some x \<Rightarrow> x)"

section \<open>Content generator: \<open>should_reply_to_tweet\<close>\<close>

text \<open>
  A tweet is the dictionary the Twitter client builds: string keys, and the values this
  code reads (\<open>id\<close>, \<open>text\<close>, \<open>author_id\<close>, \<open>author_screen_name\<close>) as opaque strings.
\<close>

type_synonym tweet = "string \<rightharpoonup> pystr"

text \<open>\<open>k in text\<close> on strings.\<close>

fun contains :: "pystr \<Rightarrow> pystr \<Rightarrow> bool" where
  "contains [] k = (k = [])"
| "contains (c # cs) k = (startswith (c # cs) k \<or> contains cs k)"

text \<open>
  \<^verbatim>\<open>
  reply_probability = self.config.get("replies.reply_probability", 0.3)
  if random.random() > reply_probability:
      return False
  keywords = self.config.get("replies.keywords_to_monitor", [])
  if not keywords:
      return True
  tweet_text = tweet.get("text", "").lower()
  for keyword in keywords:
      if keyword.lower() in tweet_text:
          return True
  return False
  \<close>
  \<open>draw\<close> is the value of \<open>random.random()\<close>, a float in \<open>[0, 1)\<close>. The keywords and the
  text are arbitrary Unicode text, and \<open>str.lower\<close> on such text is decided by the case
  tables of the Python runtime (with the context rule for a final sigma); it is the
  parameter \<open>lower\<close>, about which nothing is assumed.
\<close>

definition should_reply_to_tweet ::
    "(pystr \<Rightarrow> pystr) \<Rightarrow> config \<Rightarrow> rat \<Rightarrow> tweet \<Rightarrow> bool" where
  "should_reply_to_tweet lower cfg draw tweet =
     (if draw > config_get (reply_probability cfg) (fl (3 / 10)) then False
      else
        let keywords = config_get (keywords_to_monitor cfg) []
        in if keywords = [] then True
           else
             let tweet_text = lower (case tweet ''text'' of None \<Rightarrow> [] | Some t \<Rightarrow> t)
             in list_ex (\<lambda>keyword. contains tweet_text (lower keyword)) keywords)"

section \<open>Scheduler: state, collaborators and the record of calls\<close>

text \<open>
  \<open>datetime.time\<close>: hour, minute, second, microsecond, ordered lexicographically.
  \<open>time(h, 0)\<close> raises \<open>ValueError\<close> unless \<open>0 \<le> h \<le> 23\<close>.
\<close>

record pytime =
  hour :: nat
  minute :: nat
  second :: nat
  microsecond :: nat

definition time_le :: "pytime \<Rightarrow> pytime \<Rightarrow> bool" where
  "time_le a b \<longleftrightarrow>
     hour a < hour b \<or> (hour a = hour b \<and>
       (minute a < minute b \<or> (minute a = minute b \<and>
         (second a < second b \<or> (second a = second b \<and> microsecond a \<le> microsecond b)))))"

definition mk_time :: "int \<Rightarrow> exn + pytime" where
  "mk_time h =
     (if 0 \<le> h \<and> h \<le> 23
      then Inr \<lparr>hour = nat h, minute = 0, second = 0, microsecond = 0\<rparr>
      else Inl ValueError)"

text \<open>The two mutable fields of \<open>PostingScheduler\<close>.\<close>

record scheduler =
  posts_today :: int
  last_mention_id :: "pystr option"

text \<open>
  The scheduler's collaborators are the content generator, the Twitter client, the clock,
  the random generator and the runtime's \<open>str.lower\<close> (which \<open>should_reply_to_tweet\<close>
  applies). A call to one of them either returns, raises an \<open>Exception\<close>
  (which \<open>except Exception\<close> catches) or raises something that is not an \<open>Exception\<close>
  (\<open>SystemExit\<close>, \<open>KeyboardInterrupt\<close>), which no handler here catches.
\<close>

datatype 'a outcome = Returns 'a | Raises | Escapes

datatype call =
    GenerateTweetIdeas int
  | GenerateTweet "pystr option"
  | GenerateReply pystr "pystr option"
  | PostTweet pystr
  | ReplyToTweet pystr pystr
  | GetMentions "pystr option" int
  | GetHomeTimeline int
  | RandomChoice "pystr list"
  | RandomRandom

text \<open>
  Every call is recorded together with the scheduler's fields at the moment of the call.
  A collaborator answers from the calls made so far in the firing and its arguments,
  so that the same call can be answered differently each time. \<open>post_tweet\<close> and
  \<open>reply_to_tweet\<close> return a non-empty dictionary or \<open>None\<close>: \<open>Some\<close> of the new id, or
  \<open>None\<close>.
\<close>

type_synonym log = "(call \<times> scheduler) list"

record world =
  now :: pytime
  user_id :: pystr
  generate_tweet_ideas :: "log \<Rightarrow> int \<Rightarrow> pystr list outcome"
  generate_tweet :: "log \<Rightarrow> pystr option \<Rightarrow> pystr outcome"
  generate_reply :: "log \<Rightarrow> pystr \<Rightarrow> pystr option \<Rightarrow> pystr outcome"
  post_tweet :: "log \<Rightarrow> pystr \<Rightarrow> pystr option outcome"
  reply_to_tweet :: "log \<Rightarrow> pystr \<Rightarrow> pystr \<Rightarrow> pystr option outcome"
  get_mentions :: "log \<Rightarrow> pystr option \<Rightarrow> int \<Rightarrow> tweet list outcome"
  get_home_timeline :: "log \<Rightarrow> int \<Rightarrow> tweet list outcome"
  random_choice :: "log \<Rightarrow> nat"
  random_random :: "log \<Rightarrow> rat"
  str_lower :: "pystr \<Rightarrow> pystr"

text \<open>
  How a job body ends: it ran to its end or returned early (\<open>Finished\<close>), an exception
  was caught and logged by its handler (\<open>Caught\<close>), or a non-\<open>Exception\<close> left it
  (\<open>Escaped\<close>).
\<close>

datatype ending = Finished | Caught | Escaped

definition is_generation_or_platform_call :: "call \<Rightarrow> bool" where
  "is_generation_or_platform_call c =
     (case c of RandomChoice _ \<Rightarrow> False | RandomRandom \<Rightarrow> False | _ \<Rightarrow> True)"

definition is_reply_call :: "call \<Rightarrow> bool" where
  "is_reply_call c =
     (case c of GenerateReply _ _ \<Rightarrow> True | ReplyToTweet _ _ \<Rightarrow> True | _ \<Rightarrow> False)"

section \<open>Scheduler: \<open>_post_tweet_job\<close>\<close>

text \<open>
  \<^verbatim>\<open>
  try:
      now = datetime.now().time()
      start_time = time(self.config.get("posting.posting_hours.start", 9), 0)
      end_time = time(self.config.get("posting.posting_hours.end", 21), 0)
      if not (start_time <= now <= end_time):
          return
      max_posts = self.config.get("posting.max_posts_per_day", 10)
      if self.posts_today >= max_posts:
          return
      ideas = self.content_generator.generate_tweet_ideas(count=3)
      if not ideas: topic = None
      else: topic = random.choice(ideas)
      tweet_text = self.content_generator.generate_tweet(topic=topic)
      if tweet_text:
          result = self.twitter_client.post_tweet(tweet_text)
          if result:
              self.posts_today += 1
  except Exception as e:
      logger.error(...)
  \<close>
\<close>

definition within_posting_hours :: "pytime \<Rightarrow> pytime \<Rightarrow> pytime \<Rightarrow> bool" where
  "within_posting_hours start_time t end_time \<longleftrightarrow> time_le start_time t \<and> time_le t end_time"

definition submit_tweet :: "world \<Rightarrow> scheduler \<Rightarrow> log \<Rightarrow> pystr \<Rightarrow> scheduler \<times> log \<times> ending" where
  "submit_tweet w self lg tweet_text =
     (let lg' = lg @ [(PostTweet tweet_text, self)]
      in case post_tweet w lg tweet_text of
           Raises \<Rightarrow> (self, lg', Caught)
         | Escapes \<Rightarrow> (self, lg', Escaped)
         | Returns None \<Rightarrow> (self, lg', Finished)
         | Returns (Some r) \<Rightarrow> (self\<lparr>posts_today := posts_today self + 1\<rparr>, lg', Finished))"

definition write_tweet ::
    "world \<Rightarrow> scheduler \<Rightarrow> log \<Rightarrow> pystr option \<Rightarrow> scheduler \<times> log \<times> ending" where
  "write_tweet w self lg topic =
     (let lg' = lg @ [(GenerateTweet topic, self)]
      in case generate_tweet w lg topic of
           Raises \<Rightarrow> (self, lg', Caught)
         | Escapes \<Rightarrow> (self, lg', Escaped)
         | Returns tweet_text \<Rightarrow>
             if tweet_text = [] then (self, lg', Finished)
             else submit_tweet w self lg' tweet_text)"

definition post_tweet_job :: "config \<Rightarrow> world \<Rightarrow> scheduler \<Rightarrow> scheduler \<times> log \<times> ending" where
  "post_tweet_job cfg w self =
     (case mk_time (config_get (posting_hours_start cfg) 9) of
        Inl e \<Rightarrow> (self, [], Caught)
      | Inr start_time \<Rightarrow>
     (case mk_time (config_get (posting_hours_end cfg) 21) of
        Inl e \<Rightarrow> (self, [], Caught)
      | Inr end_time \<Rightarrow>
          if \<not> within_posting_hours start_time (now w) end_time then (self, [], Finished)
          else if posts_today self \<ge> config_get (max_posts_per_day cfg) 10
          then (self, [], Finished)
          else
            let lg = [(GenerateTweetIdeas 3, self)]
            in case generate_tweet_ideas w [] 3 of
                 Raises \<Rightarrow> (self, lg, Caught)
               | Escapes \<Rightarrow> (self, lg, Escaped)
               | Returns ideas \<Rightarrow>
                   if ideas = [] then write_tweet w self lg None
                   else write_tweet w self (lg @ [(RandomChoice ideas, self)])
                          (Some (ideas ! (random_choice w lg mod length ideas)))))"

section \<open>Scheduler: \<open>_monitor_and_reply_job\<close>\<close>

text \<open>
  \<^verbatim>\<open>
  def _reply_to_mention(self, mention):
      try:
          reply_text = self.content_generator.generate_reply(original_tweet=mention["text"])
          if reply_text:
              result = self.twitter_client.reply_to_tweet(tweet_id=mention["id"], text=reply_text)
              if result: logger.info(...)
      except Exception as e:
          logger.error(...)
  \<close>
  A missing key raises \<open>KeyError\<close>, which the handler catches like any exception of a
  collaborator. The function does not assign to the scheduler's fields.
\<close>

definition reply_to_mention :: "world \<Rightarrow> scheduler \<Rightarrow> log \<Rightarrow> tweet \<Rightarrow> log \<times> ending" where
  "reply_to_mention w self lg mention =
     (case mention ''text'' of
        None \<Rightarrow> (lg, Caught)
      | Some text \<Rightarrow>
          let lg1 = lg @ [(GenerateReply text None, self)]
          in case generate_reply w lg text None of
               Raises \<Rightarrow> (lg1, Caught)
             | Escapes \<Rightarrow> (lg1, Escaped)
             | Returns reply_text \<Rightarrow>
                 if reply_text = [] then (lg1, Finished)
                 else
                   (case mention ''id'' of
                      None \<Rightarrow> (lg1, Caught)
                    | Some i \<Rightarrow>
                        let lg2 = lg1 @ [(ReplyToTweet i reply_text, self)]
                        in case reply_to_tweet w lg1 i reply_text of
                             Raises \<Rightarrow> (lg2, Caught)
                           | Escapes \<Rightarrow> (lg2, Escaped)
                           | Returns result \<Rightarrow> (lg2, Finished)))"

text \<open>
  \<open>for mention in mentions: self._reply_to_mention(mention)\<close>. A caught exception does not
  stop the loop; one that escapes does.
\<close>

fun reply_to_mentions :: "world \<Rightarrow> scheduler \<Rightarrow> log \<Rightarrow> tweet list \<Rightarrow> log \<times> ending" where
  "reply_to_mentions w self lg [] = (lg, Finished)"
| "reply_to_mentions w self lg (mention # rest) =
     (case reply_to_mention w self lg mention of
        (lg', Escaped) \<Rightarrow> (lg', Escaped)
      | (lg', _) \<Rightarrow> reply_to_mentions w self lg' rest)"

text \<open>
  \<^verbatim>\<open>
  for tweet in tweets:
      if replies_sent >= max_replies: break
      if tweet.get("author_id") == self.twitter_client.user_id: continue
      if self.content_generator.should_reply_to_tweet(tweet):
          reply_text = self.content_generator.generate_reply(
              original_tweet=tweet["text"], original_author=tweet.get("author_screen_name"))
          if reply_text:
              result = self.twitter_client.reply_to_tweet(tweet_id=tweet["id"], text=reply_text)
              if result: replies_sent += 1
  \<close>
  The loop runs inside the \<open>try\<close> of \<open>_monitor_timeline\<close>: an exception ends the loop.
\<close>

fun timeline_loop ::
    "config \<Rightarrow> world \<Rightarrow> scheduler \<Rightarrow> int \<Rightarrow> int \<Rightarrow> log \<Rightarrow> tweet list \<Rightarrow> log \<times> ending" where
  "timeline_loop cfg w self max_replies replies_sent lg [] = (lg, Finished)"
| "timeline_loop cfg w self max_replies replies_sent lg (tweet # rest) =
     (if replies_sent \<ge> max_replies then (lg, Finished)
      else if tweet ''author_id'' = Some (user_id w)
      then timeline_loop cfg w self max_replies replies_sent lg rest
      else
        let lg1 = lg @ [(RandomRandom, self)]
        in if \<not> should_reply_to_tweet (str_lower w) cfg (random_random w lg) tweet
           then timeline_loop cfg w self max_replies replies_sent lg1 rest
           else
             (case tweet ''text'' of
                None \<Rightarrow> (lg1, Caught)
              | Some text \<Rightarrow>
                  let author = tweet ''author_screen_name'';
                      lg2 = lg1 @ [(GenerateReply text author, self)]
                  in case generate_reply w lg1 text author of
                       Raises \<Rightarrow> (lg2, Caught)
                     | Escapes \<Rightarrow> (lg2, Escaped)
                     | Returns reply_text \<Rightarrow>
                         if reply_text = []
                         then timeline_loop cfg w self max_replies replies_sent lg2 rest
                         else
                           (case tweet ''id'' of
                              None \<Rightarrow> (lg2, Caught)
                            | Some i \<Rightarrow>
                                let lg3 = lg2 @ [(ReplyToTweet i reply_text, self)]
                                in case reply_to_tweet w lg2 i reply_text of
                                     Raises \<Rightarrow> (lg3, Caught)
                                   | Escapes \<Rightarrow> (lg3, Escaped)
                                   | Returns None \<Rightarrow>
                                       timeline_loop cfg w self max_replies replies_sent lg3 rest
                                   | Returns (Some r) \<Rightarrow>
                                       timeline_loop cfg w self max_replies (replies_sent + 1)
                                         lg3 rest)))"

text \<open>
  \<^verbatim>\<open>
  def _monitor_timeline(self):
      try:
          max_replies = self.config.get("replies.max_replies_per_check", 5)
          tweets = self.twitter_client.get_home_timeline(max_results=20)
          replies_sent = 0
          for tweet in tweets: ...
      except Exception as e:
          logger.error(...)
  \<close>
\<close>

definition monitor_timeline :: "config \<Rightarrow> world \<Rightarrow> scheduler \<Rightarrow> log \<Rightarrow> log \<times> ending" where
  "monitor_timeline cfg w self lg =
     (let max_replies = config_get (max_replies_per_check cfg) 5;
          lg1 = lg @ [(GetHomeTimeline 20, self)]
      in case get_home_timeline w lg 20 of
           Raises \<Rightarrow> (lg1, Caught)
         | Escapes \<Rightarrow> (lg1, Escaped)
         | Returns tweets \<Rightarrow> timeline_loop cfg w self max_replies 0 lg1 tweets)"

text \<open>
  \<^verbatim>\<open>
  try:
      mentions = self.twitter_client.get_mentions(since_id=self.last_mention_id, max_results=10)
      if mentions:
          self.last_mention_id = mentions[0]["id"]
          for mention in mentions:
              self._reply_to_mention(mention)
      self._monitor_timeline()
  except Exception as e:
      logger.error(...)
  \<close>
  \<open>_monitor_timeline\<close> catches its own exceptions, so after it the job ends normally
  unless something escaped.
\<close>

definition after_timeline :: "scheduler \<Rightarrow> log \<times> ending \<Rightarrow> scheduler \<times> log \<times> ending" where
  "after_timeline self r = (self, fst r, (if snd r = Escaped then Escaped else Finished))"

definition monitor_and_reply_job ::
    "config \<Rightarrow> world \<Rightarrow> scheduler \<Rightarrow> scheduler \<times> log \<times> ending" where
  "monitor_and_reply_job cfg w self =
     (let lg = [(GetMentions (last_mention_id self) 10, self)]
      in case get_mentions w [] (last_mention_id self) 10 of
           Raises \<Rightarrow> (self, lg, Caught)
         | Escapes \<Rightarrow> (self, lg, Escaped)
         | Returns mentions \<Rightarrow>
             if mentions = [] then after_timeline self (monitor_timeline cfg w self lg)
             else
               (case hd mentions ''id'' of
                  None \<Rightarrow> (self, lg, Caught)
                | Some newest \<Rightarrow>
                    let self' = self\<lparr>last_mention_id := Some newest\<rparr>
                    in case reply_to_mentions w self' lg mentions of
                         (lg', Escaped) \<Rightarrow> (self', lg', Escaped)
                       | (lg', _) \<Rightarrow> after_timeline self' (monitor_timeline cfg w self' lg')))"

section \<open>Scheduler: \<open>_schedule_posting\<close>\<close>

text \<open>
  \<^verbatim>\<open>
  active_hours = end_hour - start_hour
  if active_hours <= 0: return
  interval_minutes = (active_hours * 60) // max_posts
  min_interval = int(interval_minutes * 0.8)
  max_interval = int(interval_minutes * 1.2)
  \<close>
  \<open>//\<close> on \<open>int\<close>s is floor division and raises \<open>ZeroDivisionError\<close> for a zero divisor.
  The literals \<open>0.8\<close> and \<open>1.2\<close> are the floats \<open>fl (4 / 5)\<close> and \<open>fl (6 / 5)\<close>. The result is
  \<open>None\<close> when nothing is scheduled, and the base, least and greatest interval otherwise.
\<close>

definition posting_intervals :: "int \<Rightarrow> int \<Rightarrow> int \<Rightarrow> exn + (int \<times> int \<times> int) option" where
  "posting_intervals max_posts start_hour end_hour =
     (let active_hours = end_hour - start_hour
      in if active_hours \<le> 0 then Inr None
         else if max_posts = 0 then Inl ZeroDivisionError
         else
           let interval_minutes = (active_hours * 60) div max_posts
           in case int_mul_float interval_minutes (fl (4 / 5)) of
                Inl e \<Rightarrow> Inl e
              | Inr min_interval \<Rightarrow>
                  (case int_mul_float interval_minutes (fl (6 / 5)) of
                     Inl e \<Rightarrow> Inl e
                   | Inr max_interval \<Rightarrow>
                       Inr (Some (interval_minutes, min_interval, max_interval))))"

text \<open>
  A random draw is described by its distribution: the probability of each value.

  \<open>random.randint(a, b)\<close> raises \<open>ValueError\<close> when \<open>b < a\<close> and otherwise returns an integer
  \<open>N\<close> with \<open>a \<le> N \<le> b\<close>, selected uniformly (the contract of the \<open>random\<close> module for
  integers): each of the \<open>b - a + 1\<close> integers has the same probability.
\<close>

type_synonym 'a distribution = "'a \<Rightarrow> rat"

definition uniform_int :: "int \<Rightarrow> int \<Rightarrow> int distribution" where
  "uniform_int a b v = (if a \<le> v \<and> v \<le> b then 1 / of_int (b - a + 1) else 0)"

definition randint :: "int \<Rightarrow> int \<Rightarrow> exn + int distribution" where
  "randint a b = (if b < a then Inl ValueError else Inr (uniform_int a b))"

text \<open>
  \<open>_schedule_posting\<close> up to the interval it gives the post job's \<open>IntervalTrigger\<close>, in
  minutes: \<open>random.randint(min_interval, max_interval)\<close>. The result is an exception that
  leaves the function, \<open>None\<close> when it returns without scheduling, or the distribution of
  the interval.
\<close>

definition schedule_posting :: "config \<Rightarrow> exn + int distribution option" where
  "schedule_posting cfg =
     (case posting_intervals (config_get (max_posts_per_day cfg) 10)
             (config_get (posting_hours_start cfg) 9) (config_get (posting_hours_end cfg) 21) of
        Inl e \<Rightarrow> Inl e
      | Inr None \<Rightarrow> Inr None
      | Inr (Some (interval_minutes, min_interval, max_interval)) \<Rightarrow>
          (case randint min_interval max_interval of
             Inl e \<Rightarrow> Inl e
           | Inr minutes \<Rightarrow> Inr (Some minutes)))"

section \<open>Concrete configurations and collaborators\<close>

text \<open>
  The settings of the scenarios: nothing configured (every default applies), a reply
  probability of \<open>0\<close>, and posting hours 9 to 21 with 12 posts per day.
\<close>

definition default_config :: config where
  "default_config =
     \<lparr>posting_hours_start = None, posting_hours_end = None, max_posts_per_day = None,
      reply_probability = None, keywords_to_monitor = None, max_replies_per_check = None\<rparr>"

definition never_reply_config :: config where
  "never_reply_config = default_config\<lparr>reply_probability := Some 0\<rparr>"

definition twelve_posts_config :: config where
  "twelve_posts_config =
     default_config\<lparr>posting_hours_start := Some 9, posting_hours_end := Some 21,
                    max_posts_per_day := Some 12\<rparr>"

text \<open>
  \<open>str.lower\<close> on ASCII text, for the scenarios below (their texts are ASCII).
\<close>

definition ascii_lower :: "pystr \<Rightarrow> pystr" where
  "ascii_lower s = map (\<lambda>c. if 65 \<le> c \<and> c \<le> 90 then c + 32 else c) s"

text \<open>
  Collaborators that always succeed, at a given time of day: no topic ideas, the tweet
  \<open>"hello"\<close>, the reply \<open>"thanks"\<close>, every post accepted, and the given mentions.
\<close>

definition obliging_world :: "pytime \<Rightarrow> tweet list \<Rightarrow> world" where
  "obliging_world t mentions =
     \<lparr>now = t, user_id = str ''me'',
      generate_tweet_ideas = (\<lambda>lg count. Returns []),
      generate_tweet = (\<lambda>lg topic. Returns (str ''hello'')),
      generate_reply = (\<lambda>lg text author. Returns (str ''thanks'')),
      post_tweet = (\<lambda>lg text. Returns (Some (str ''1''))),
      reply_to_tweet = (\<lambda>lg i text. Returns (Some (str ''2''))),
      get_mentions = (\<lambda>lg since_id max_results. Returns mentions),
      get_home_timeline = (\<lambda>lg max_results. Returns []),
      random_choice = (\<lambda>lg. 0),
      random_random = (\<lambda>lg. 0),
      str_lower = ascii_lower\<rparr>"

definition time_of_day :: "nat \<Rightarrow> nat \<Rightarrow> nat \<Rightarrow> nat \<Rightarrow> pytime" where
  "time_of_day h m s us = \<lparr>hour = h, minute = m, second = s, microsecond = us\<rparr>"

definition fresh_scheduler :: scheduler where
  "fresh_scheduler = \<lparr>posts_today = 0, last_mention_id = None\<rparr>"

text \<open>One fetched mention, with id \<open>"42"\<close>.\<close>

definition one_mention :: "tweet list" where
  "one_mention = [[''id'' \<mapsto> str ''42'', ''text'' \<mapsto> str ''hi there'']]"

text \<open>
  A record of calls in which every call that generates or submits a reply was made with
  the cursor \<open>last_mention_id\<close> already at \<open>newest\<close>.
\<close>

definition replies_after_cursor :: "pystr \<Rightarrow> log \<Rightarrow> bool" where
  "replies_after_cursor newest lg \<longleftrightarrow>
     list_all (\<lambda>e. is_reply_call (fst e) \<longrightarrow> last_mention_id (snd e) = Some newest) lg"

text \<open>
  Collaborators as above, except that generating a reply raises \<open>SystemExit\<close>, which is
  not an \<open>Exception\<close>.
\<close>

definition exiting_world :: "pytime \<Rightarrow> tweet list \<Rightarrow> world" where
  "exiting_world t mentions =
     (obliging_world t mentions)\<lparr>generate_reply := (\<lambda>lg text author. Escapes)\<rparr>"

section \<open>Properties of \<open>_clean_tweet\<close>\<close>

lemma length_strip_by: "length (strip_by P s) \<le> length s"
proof -
  have "length (dropWhile P (rev (dropWhile P s))) \<le> length (rev (dropWhile P s))"
    by (rule length_dropWhile_le)
  also have "\<dots> \<le> length s"
    by (simp add: length_dropWhile_le)
  finally show ?thesis by (simp add: strip_by_def)
qed

lemma length_truncate_280: "length (truncate_280 t) \<le> 280"
  by (simp add: truncate_280_def str_def)

text \<open>The bound on the result, in the form the later proofs use.\<close>

lemma length_clean_tweet: "length (clean_tweet s) \<le> 280"
proof -
  have "length (clean_tweet s) \<le> length (truncate_280
          (foldl strip_prefix (strip_by is_quote (py_strip s)) prefixes))"
    unfolding clean_tweet_def py_strip_def by (rule length_strip_by)
  also have "\<dots> \<le> 280" by (rule length_truncate_280)
  finally show ?thesis .
qed

text \<open>
  C2. For every input string the output of \<open>_clean_tweet\<close> has at most 280 characters.
\<close>

theorem clean_tweet_length_le_280: "length (clean_tweet s) \<le> 280"
proof -
  let ?t = "foldl strip_prefix (strip_by is_quote (py_strip s)) prefixes"
  have "length (truncate_280 ?t) \<le> 280"
  proof (cases "length ?t > 280")
    case True
    then have "truncate_280 ?t = take 277 ?t @ str ''...''"
      by (simp add: truncate_280_def)
    then show ?thesis by (simp add: str_def)
  next
    case False
    then show ?thesis by (simp add: truncate_280_def)
  qed
  moreover have "length (py_strip (truncate_280 ?t)) \<le> length (truncate_280 ?t)"
    unfolding py_strip_def by (rule length_strip_by)
  ultimately show ?thesis by (simp add: clean_tweet_def)
qed

lemma strip_by_trimmed: "trimmed P u \<Longrightarrow> strip_by P u = u"
proof (cases "u = []")
  case True
  then show ?thesis by (simp add: strip_by_def)
next
  case False
  assume "trimmed P u"
  with False have h: "\<not> P (hd u)" and l: "\<not> P (last u)"
    by (simp_all add: trimmed_def)
  from False h have 1: "dropWhile P u = u"
    by (cases u) simp_all
  from False l have 2: "dropWhile P (rev u) = rev u"
    by (cases "rev u") (simp_all add: hd_rev [symmetric])
  show ?thesis by (simp add: strip_by_def 1 2)
qed

lemma trimmed_strip_by: "trimmed P (strip_by P s)"
  unfolding trimmed_def strip_by_def
  by (metis dropWhile_eq_self_iff hd_dropWhile hd_rev last_appendR last_rev
    rev.simps(1) takeWhile_dropWhile_id)

lemma not_trimmed_shorter:
  assumes "\<not> trimmed P u"
  shows "length (strip_by P u) < length u"
proof -
  from assms have ne: "u \<noteq> []" and pq: "P (hd u) \<or> P (last u)"
    by (auto simp: trimmed_def)
  show ?thesis
  proof (cases "P (hd u)")
    case True
    with ne have "length (dropWhile P u) < length u"
      by (cases u) (simp_all add: le_imp_less_Suc length_dropWhile_le)
    moreover have "length (strip_by P u) \<le> length (dropWhile P u)"
      unfolding strip_by_def using length_dropWhile_le [of P "rev (dropWhile P u)"] by simp
    ultimately show ?thesis by simp
  next
    case False
    with ne have 1: "dropWhile P u = u" by (cases u) simp_all
    from False pq have "P (last u)" by simp
    with ne have "length (dropWhile P (rev u)) < length (rev u)"
      by (cases "rev u") (simp_all add: hd_rev [symmetric] le_imp_less_Suc length_dropWhile_le)
    then show ?thesis by (simp add: strip_by_def 1)
  qed
qed

lemma length_strip_prefix: "length (strip_prefix t p) \<le> length t"
  using length_strip_by [of is_space "drop (length p) t"]
  by (auto simp: strip_prefix_def py_strip_def)

lemma length_foldl_strip_prefix: "length (foldl strip_prefix t ps) \<le> length t"
proof (induction ps arbitrary: t)
  case Nil
  show ?case by simp
next
  case (Cons p ps)
  have "length (foldl strip_prefix (strip_prefix t p) ps) \<le> length (strip_prefix t p)"
    by (rule Cons.IH)
  also have "\<dots> \<le> length t" by (rule length_strip_prefix)
  finally show ?case by simp
qed

lemma foldl_strip_prefix_none:
  "\<forall>p \<in> set ps. \<not> startswith (py_lower t) p \<Longrightarrow> foldl strip_prefix t ps = t"
  by (induction ps) (simp_all add: strip_prefix_def)

lemma strip_prefix_shorter:
  assumes "startswith (py_lower t) p" and "p \<noteq> []"
  shows "length (strip_prefix t p) < length t"
proof -
  from assms have "t \<noteq> []"
    by (auto simp: startswith_def py_lower_def)
  with assms(2) have "length (drop (length p) t) < length t"
    by simp
  moreover have "length (py_strip (drop (length p) t)) \<le> length (drop (length p) t)"
    unfolding py_strip_def by (rule length_strip_by)
  ultimately show ?thesis using assms(1) by (simp add: strip_prefix_def)
qed

lemma foldl_strip_prefix_shorter:
  "\<exists>p \<in> set ps. startswith (py_lower t) p \<Longrightarrow> [] \<notin> set ps \<Longrightarrow>
     length (foldl strip_prefix t ps) < length t"
proof (induction ps)
  case Nil
  then show ?case by simp
next
  case (Cons p ps)
  show ?case
  proof (cases "startswith (py_lower t) p")
    case True
    have "length (foldl strip_prefix (strip_prefix t p) ps) \<le> length (strip_prefix t p)"
      by (rule length_foldl_strip_prefix)
    also have "\<dots> < length t"
      using True Cons.prems(2) by (intro strip_prefix_shorter) auto
    finally show ?thesis by simp
  next
    case False
    then have "strip_prefix t p = t" by (simp add: strip_prefix_def)
    moreover from False Cons.prems have "length (foldl strip_prefix t ps) < length t"
      by (intro Cons.IH) auto
    ultimately show ?thesis by simp
  qed
qed

lemma length_truncate_le: "length (truncate_280 t) \<le> length t"
  by (simp add: truncate_280_def str_def)

lemma nil_notin_prefixes: "[] \<notin> set prefixes"
  by (simp add: prefixes_def str_def)

lemma clean_tweet_tail_le:
  "length (py_strip (truncate_280 (foldl strip_prefix u prefixes))) \<le> length u"
proof -
  have "length (py_strip (truncate_280 (foldl strip_prefix u prefixes)))
          \<le> length (truncate_280 (foldl strip_prefix u prefixes))"
    unfolding py_strip_def by (rule length_strip_by)
  also have "\<dots> \<le> length (foldl strip_prefix u prefixes)" by (rule length_truncate_le)
  also have "\<dots> \<le> length u" by (rule length_foldl_strip_prefix)
  finally show ?thesis .
qed

lemma clean_tweet_fixed_point:
  assumes sp: "py_strip t = t" and len: "length t \<le> 280"
  shows "clean_tweet t = t \<longleftrightarrow> already_clean t"
proof
  assume ac: "already_clean t"
  then have q: "strip_by is_quote t = t"
    by (simp add: already_clean_def strip_by_trimmed)
  from ac have f: "foldl strip_prefix t prefixes = t"
    by (simp add: already_clean_def foldl_strip_prefix_none)
  from len have tr: "truncate_280 t = t" by (simp add: truncate_280_def)
  show "clean_tweet t = t" by (simp add: clean_tweet_def sp q f tr)
next
  assume fp: "clean_tweet t = t"
  show "already_clean t"
  proof (rule ccontr)
    assume nac: "\<not> already_clean t"
    have "length (clean_tweet t) < length t"
    proof (cases "trimmed is_quote t")
      case False
      then have "length (strip_by is_quote t) < length t" by (rule not_trimmed_shorter)
      moreover have "length (clean_tweet t) \<le> length (strip_by is_quote t)"
        unfolding clean_tweet_def sp by (rule clean_tweet_tail_le)
      ultimately show ?thesis by simp
    next
      case True
      then have q: "strip_by is_quote t = t" by (rule strip_by_trimmed)
      from True nac have "\<exists>p \<in> set prefixes. startswith (py_lower t) p"
        by (simp add: already_clean_def)
      then have "length (foldl strip_prefix t prefixes) < length t"
        using nil_notin_prefixes by (rule foldl_strip_prefix_shorter)
      moreover have "length (clean_tweet t) \<le> length (foldl strip_prefix t prefixes)"
      proof -
        have "clean_tweet t = py_strip (truncate_280 (foldl strip_prefix t prefixes))"
          by (simp add: clean_tweet_def sp q)
        then have "length (clean_tweet t) \<le> length (truncate_280 (foldl strip_prefix t prefixes))"
          by (simp add: py_strip_def length_strip_by)
        also have "\<dots> \<le> length (foldl strip_prefix t prefixes)" by (rule length_truncate_le)
        finally show ?thesis .
      qed
      ultimately show ?thesis by simp
    qed
    with fp show False by simp
  qed
qed

lemma py_strip_clean_tweet: "py_strip (clean_tweet s) = clean_tweet s"
  unfolding clean_tweet_def py_strip_def
  by (rule strip_by_trimmed) (rule trimmed_strip_by)

lemmas clean_tweet_eval =
  clean_tweet_def prefixes_def str_def strip_prefix_def startswith_def py_lower_def
  lower_cp_def py_strip_def strip_by_def is_space_def is_quote_def truncate_280_def

text \<open>
  C3 (as the code has it). Cleaning a second time changes nothing exactly when the
  first result is already clean: it has no quote character at either end and does not
  start with a label prefix. (The loop tries each prefix once, and quotes are removed
  before the prefixes, so one pass can leave a label or a quote behind.)
\<close>

theorem clean_tweet_twice:
  "clean_tweet (clean_tweet s) = clean_tweet s \<longleftrightarrow> already_clean (clean_tweet s)"
  by (rule clean_tweet_fixed_point) (rule py_strip_clean_tweet, rule length_clean_tweet)

theorem clean_tweet_twice_witness:
  "already_clean (clean_tweet (str ''Here's the tweet: Great news today! #ai'')) \<and>
   clean_tweet (clean_tweet (str ''Here's the tweet: Great news today! #ai'')) =
     clean_tweet (str ''Here's the tweet: Great news today! #ai'')"
proof -
  have "already_clean (clean_tweet (str ''Here's the tweet: Great news today! #ai''))"
    by (simp add: already_clean_def trimmed_def clean_tweet_eval)
  then show ?thesis
    using clean_tweet_twice [of "str ''Here's the tweet: Great news today! #ai''"] by simp
qed

text \<open>
  C3 as stated fails: \<open>"tweet: tweet: hi"\<close> is cleaned to \<open>"tweet: hi"\<close>, and that to
  \<open>"hi"\<close>.
\<close>

theorem clean_tweet_not_idempotent:
  "clean_tweet (clean_tweet (str ''tweet: tweet: hi''))
     \<noteq> clean_tweet (str ''tweet: tweet: hi'')"
  by (simp add: clean_tweet_eval)


text \<open>
  Why \<open>lower_cp\<close> is enough for \<open>_clean_tweet\<close>. Let \<open>xs\<close> be the true lower-case forms of the
  code points of a text, one entry per code point in its context, and \<open>ys\<close> the forms
  \<open>lower_cp\<close> gives. Position by position they are equal or both begin outside ASCII.
  Then the two lower-cased texts begin with the same ASCII strings, so the test
  \<open>text.lower().startswith(prefix)\<close> has the same result on both.
\<close>

lemma startswith_append:
  "startswith (x @ a) p \<longleftrightarrow>
     (if length p \<le> length x then startswith x p
      else take (length x) p = x \<and> startswith a (drop (length x) p))"
proof (cases "length p \<le> length x")
  case True
  then show ?thesis by (simp add: startswith_def)
next
  case False
  then have lt: "length x < length p" by simp
  have "x @ take (length p - length x) a = p \<longleftrightarrow>
          x @ take (length p - length x) a = take (length x) p @ drop (length x) p"
    by simp
  also have "\<dots> \<longleftrightarrow> x = take (length x) p \<and> take (length p - length x) a = drop (length x) p"
    using lt by (intro append_eq_append_conv) simp
  finally show ?thesis
    using lt by (auto simp: startswith_def)
qed

lemma startswith_concat_ascii:
  assumes "list_all2 (\<lambda>x y. x = y \<or> (x \<noteq> [] \<and> y \<noteq> [] \<and> 128 \<le> hd x \<and> 128 \<le> hd y)) xs ys"
    and "\<forall>c \<in> set p. c < 128"
  shows "startswith (concat xs) p \<longleftrightarrow> startswith (concat ys) p"
  using assms
proof (induction xs ys arbitrary: p rule: list_all2_induct)
  case Nil
  show ?case by simp
next
  case (Cons x xs y ys)
  show ?case
  proof (cases "x = y")
    case True
    have "\<forall>c \<in> set (drop (length y) p). c < 128"
      using Cons.prems by (auto dest: in_set_dropD)
    then have "startswith (concat xs) (drop (length y) p)
                 \<longleftrightarrow> startswith (concat ys) (drop (length y) p)"
      by (rule Cons.IH)
    with True show ?thesis by (simp add: startswith_append)
  next
    case False
    with Cons.hyps have x: "x \<noteq> []" "128 \<le> hd x" and y: "y \<noteq> []" "128 \<le> hd y"
      by simp_all
    show ?thesis
    proof (cases p)
      case Nil
      then show ?thesis by (simp add: startswith_def)
    next
      case (Cons c p')
      with Cons.prems have c: "c < 128" by simp
      from x c Cons have "\<not> startswith (x @ concat xs) p"
        by (cases x) (auto simp: startswith_def)
      moreover from y c Cons have "\<not> startswith (y @ concat ys) p"
        by (cases y) (auto simp: startswith_def)
      ultimately show ?thesis by simp
    qed
  qed
qed

text \<open>The same with \<open>py_lower\<close> and the label prefixes, which are ASCII.\<close>

lemma prefixes_ascii: "\<forall>p \<in> set prefixes. \<forall>c \<in> set p. c < 128"
  by (simp add: prefixes_def str_def)

lemma py_lower_prefix_test:
  assumes "list_all2 (\<lambda>x y. x = y \<or> (x \<noteq> [] \<and> y \<noteq> [] \<and> 128 \<le> hd x \<and> 128 \<le> hd y))
             xs (map lower_cp text)"
    and "p \<in> set prefixes"
  shows "startswith (concat xs) p \<longleftrightarrow> startswith (py_lower text) p"
  unfolding py_lower_def using assms(1)
  by (rule startswith_concat_ascii) (use assms(2) prefixes_ascii in blast)
section \<open>Properties of the style analyzer\<close>

lemma map_of_dict_set: "map_of (dict_set k v d) = (map_of d)(k \<mapsto> v)"
  by (induction d) (auto simp: fun_eq_iff)

lemma map_of_dict_update_other:
  "k \<notin> fst ` set other \<Longrightarrow> map_of (dict_update d other) k = map_of d k"
  unfolding dict_update_def
  by (induction other arbitrary: d) (simp_all add: map_of_dict_set)

lemma quantitative_keys:
  "map fst (quantitative_analysis word samples) =
     [str ''avg_sentence_length'', str ''avg_word_length'', str ''emoji_frequency'',
      str ''hashtag_frequency'', str ''exclamation_frequency'', str ''question_frequency'']"
  by (simp add: quantitative_analysis_def Let_def)

text \<open>The frequencies are the counts over the joined text divided by the number of samples.\<close>

lemma emoji_frequency_value:
  "map_of (quantitative_analysis word samples) (str ''emoji_frequency'') =
     Some (frequency (length (filter is_emoji (py_join (str '' '') samples))) samples)"
  by (simp add: quantitative_analysis_def Let_def str_def)

lemma hashtag_frequency_value:
  "map_of (quantitative_analysis word samples) (str ''hashtag_frequency'') =
     Some (frequency (count_hashtags word False False (py_join (str '' '') samples)) samples)"
  by (simp add: quantitative_analysis_def Let_def str_def)

text \<open>
  The overlay \<open>**quantitative\<close> sets the six metric keys only, so every other key of the
  default profile keeps the value of the literal.
\<close>

lemma default_profile_lookup:
  assumes "k \<notin> {str ''avg_sentence_length'', str ''avg_word_length'', str ''emoji_frequency'',
      str ''hashtag_frequency'', str ''exclamation_frequency'', str ''question_frequency''}"
  shows "map_of (create_default_profile word samples) k =
     map_of
       [(str ''tone'', VStr (str ''neutral'')),
        (str ''voice'', VStr (str ''conversational'')),
        (str ''vocabulary_level'', VStr (str ''moderate'')),
        (str ''sentence_style'', VStr (str ''varied'')),
        (str ''punctuation_patterns'', VList [VStr (str ''standard'')]),
        (str ''emoji_usage'',
           VStr (if greater_than
                   (map_of (quantitative_analysis word samples) (str ''emoji_frequency'')) (1 / 2)
                 then str ''moderate'' else str ''rare'')),
        (str ''hashtag_style'',
           VStr (if greater_than
                   (map_of (quantitative_analysis word samples) (str ''hashtag_frequency''))
                   (fl (1 / 5))
                 then str ''occasional'' else str ''none'')),
        (str ''common_phrases'', VList []),
        (str ''personality_traits'', VList [VStr (str ''informative'')]),
        (str ''topics_of_interest'', VList []),
        (str ''writing_quirks'', VList [])] k"
proof -
  have "fst ` set (quantitative_analysis word samples) =
          set (map fst (quantitative_analysis word samples))"
    by simp
  with assms have "k \<notin> fst ` set (quantitative_analysis word samples)"
    unfolding quantitative_keys by simp
  then show ?thesis
    unfolding create_default_profile_def Let_def by (rule map_of_dict_update_other)
qed

text \<open>
  C4 (as the code has it). For every list of samples the default profile has tone
  \<open>"neutral"\<close>, voice \<open>"conversational"\<close>, vocabulary level \<open>"moderate"\<close>, sentence style
  \<open>"varied"\<close>, punctuation patterns \<open>["standard"]\<close>; \<open>emoji_usage\<close> is \<open>"moderate"\<close> if the
  emoji frequency exceeds \<open>0.5\<close> and \<open>"rare"\<close> otherwise, \<open>hashtag_style\<close> is \<open>"occasional"\<close>
  if the hashtag frequency exceeds \<open>0.2\<close> and \<open>"none"\<close> otherwise; \<open>common_phrases\<close>,
  \<open>topics_of_interest\<close> and \<open>writing_quirks\<close> are empty, and \<open>personality_traits\<close> is
  \<open>["informative"]\<close>.
\<close>

theorem create_default_profile_fields:
  "(let p = map_of (create_default_profile word samples);
        q = map_of (quantitative_analysis word samples)
    in p (str ''tone'') = Some (VStr (str ''neutral'')) \<and>
       p (str ''voice'') = Some (VStr (str ''conversational'')) \<and>
       p (str ''vocabulary_level'') = Some (VStr (str ''moderate'')) \<and>
       p (str ''sentence_style'') = Some (VStr (str ''varied'')) \<and>
       p (str ''punctuation_patterns'') = Some (VList [VStr (str ''standard'')]) \<and>
       p (str ''emoji_usage'') =
         Some (VStr (if greater_than (q (str ''emoji_frequency'')) (1 / 2)
                     then str ''moderate'' else str ''rare'')) \<and>
       p (str ''hashtag_style'') =
         Some (VStr (if greater_than (q (str ''hashtag_frequency'')) (fl (1 / 5))
                     then str ''occasional'' else str ''none'')) \<and>
       p (str ''common_phrases'') = Some (VList []) \<and>
       p (str ''personality_traits'') = Some (VList [VStr (str ''informative'')]) \<and>
       p (str ''topics_of_interest'') = Some (VList []) \<and>
       p (str ''writing_quirks'') = Some (VList []))"
  unfolding Let_def
  by (intro conjI; subst default_profile_lookup) (simp_all add: str_def)

text \<open>
  C4 as stated fails: \<open>personality_traits\<close> of the default profile is not the empty
  sequence.
\<close>

theorem default_profile_personality_traits_not_empty:
  "map_of (create_default_profile ascii_word [str ''hi'']) (str ''personality_traits'')
     \<noteq> Some (VList [])"
  by (subst default_profile_lookup) (simp_all add: str_def)

text \<open>
  The two ways \<open>analyze_samples\<close> ends on a non-empty list of samples. When the response
  yields a non-empty dictionary, the result is stored as the current profile.
\<close>

lemma analyze_samples_success:
  assumes "samples \<noteq> []"
    and "ai_analyze env (take 8000 (py_join separator (take 10 samples))) = Inr response"
    and "extract_json env response = Inr (VDict d)" and "d \<noteq> []"
  shows "style_profile (fst (snd (analyze_samples env samples self)))
           = Some (fst (analyze_samples env samples self))"
  using assms by (simp add: analyze_samples_def Let_def)

text \<open>When the AI client raises, the default profile is returned and nothing is stored.\<close>

lemma analyze_samples_failure:
  assumes "samples \<noteq> []"
    and "ai_analyze env (take 8000 (py_join separator (take 10 samples))) = Inl e"
  shows "analyze_samples env samples self =
           (create_default_profile (word_class env) samples, self,
            [take 8000 (py_join separator (take 10 samples))])"
  using assms by (simp add: analyze_samples_def Let_def)

text \<open>
  C1. The claim is that after \<open>analyze_samples\<close> on a non-empty list the current profile
  is the returned one on every path. On the one sample \<open>"hi"\<close>, with an AI client that
  raises and no profile stored before, the code returns the default profile and the
  current profile is still \<open>None\<close>.
\<close>

theorem analyze_samples_default_profile_not_stored:
  "analyze_samples failing_env [str ''hi''] \<lparr>style_profile = None\<rparr> =
     (create_default_profile ascii_word [str ''hi''], \<lparr>style_profile = None\<rparr>, [str ''hi''])"
  by (simp add: analyze_samples_def failing_env_def Let_def str_def)

text \<open>
  C8. For the empty list of samples \<open>analyze_samples\<close> returns the empty dictionary,
  sends nothing to the AI client and leaves the analyzer as it was.
\<close>

theorem analyze_samples_empty: "analyze_samples env [] self = ([], self, [])"
  by (simp add: analyze_samples_def)

section \<open>Properties of \<open>should_reply_to_tweet\<close>\<close>

text \<open>
  C7 (as the code has it). With a reply probability of \<open>0\<close> the gate declines every
  draw above \<open>0\<close>. A draw of exactly \<open>0\<close> does not exceed the probability: the tweet is
  then accepted when no keywords are configured or its lower-cased text contains a
  lower-cased keyword. This holds whatever \<open>str.lower\<close> does.
\<close>

theorem should_reply_probability_zero:
  assumes "reply_probability cfg = Some 0" and "0 \<le> draw"
  shows "should_reply_to_tweet lower cfg draw tweet \<longleftrightarrow>
           draw = 0 \<and>
           (config_get (keywords_to_monitor cfg) [] = [] \<or>
            list_ex (\<lambda>keyword.
                contains (lower (case tweet ''text'' of None \<Rightarrow> [] | Some t \<Rightarrow> t))
                  (lower keyword))
              (config_get (keywords_to_monitor cfg) []))"
proof (cases "draw = 0")
  case True
  with assms(1) show ?thesis
    by (simp add: should_reply_to_tweet_def config_get_def Let_def)
next
  case False
  with assms(2) have "0 < draw" by simp
  with assms(1) have "\<not> should_reply_to_tweet lower cfg draw tweet"
    by (simp add: should_reply_to_tweet_def config_get_def)
  with False show ?thesis by simp
qed

theorem should_reply_probability_zero_witness:
  "reply_probability never_reply_config = Some 0 \<and> (0::rat) \<le> 1 / 2 \<and>
   \<not> should_reply_to_tweet ascii_lower never_reply_config (1 / 2) [''text'' \<mapsto> str ''hello'']"
proof -
  have h: "reply_probability never_reply_config = Some 0"
    by (simp add: never_reply_config_def)
  from should_reply_probability_zero
         [OF h, of "1 / 2" ascii_lower "[''text'' \<mapsto> str ''hello'']"] h
  show ?thesis by simp
qed

text \<open>
  C7 as stated fails: with probability \<open>0\<close> and no keywords, the draw \<open>0\<close> (which
  \<open>random.random()\<close> can return) is accepted.
\<close>

theorem should_reply_probability_zero_accepts:
  "should_reply_to_tweet ascii_lower never_reply_config 0 [''text'' \<mapsto> str ''hello'']"
  by (simp add: should_reply_to_tweet_def never_reply_config_def default_config_def
      config_get_def)

text \<open>
  At the draw \<open>0\<close> a configured keyword decides, through \<open>str.lower\<close>: with the keyword
  \<open>"AI"\<close> the text \<open>"I love ai"\<close> is accepted and the text \<open>"hello"\<close> is declined.
\<close>

lemma should_reply_keyword_at_zero:
  "should_reply_to_tweet ascii_lower
     (never_reply_config\<lparr>keywords_to_monitor := Some [str ''AI'']\<rparr>) 0
     [''text'' \<mapsto> str ''I love ai''] \<and>
   \<not> should_reply_to_tweet ascii_lower
     (never_reply_config\<lparr>keywords_to_monitor := Some [str ''AI'']\<rparr>) 0
     [''text'' \<mapsto> str ''hello'']"
  by (simp add: should_reply_to_tweet_def never_reply_config_def default_config_def
      config_get_def ascii_lower_def str_def startswith_def)

section \<open>Properties of \<open>_post_tweet_job\<close>\<close>

text \<open>With posting hours that are not hours of the day, \<open>time(h, 0)\<close> raises and nothing is called.\<close>

lemma post_tweet_job_invalid_hours:
  assumes "mk_time (config_get (posting_hours_start cfg) 9) = Inl e \<or>
           mk_time (config_get (posting_hours_end cfg) 21) = Inl e"
  shows "post_tweet_job cfg w self = (self, [], Caught)"
  using assms by (auto simp: post_tweet_job_def split: sum.splits)







lemmas post_job_eval =
  post_tweet_job_def default_config_def config_get_def mk_time_def within_posting_hours_def
  time_le_def obliging_world_def time_of_day_def fresh_scheduler_def write_tweet_def
  submit_tweet_def



text \<open>
  C6. In a firing inside the posting window with \<open>posts_today \<ge> max_posts_per_day\<close> the job
  makes no call at all (so no generation call and no platform call), and
  \<open>posts_today\<close> and \<open>last_mention_id\<close> are as before.
\<close>

theorem post_tweet_job_limit_reached:
  assumes "mk_time (config_get (posting_hours_start cfg) 9) = Inr start_time"
    and "mk_time (config_get (posting_hours_end cfg) 21) = Inr end_time"
    and "within_posting_hours start_time (now w) end_time"
    and "posts_today self \<ge> config_get (max_posts_per_day cfg) 10"
  shows "post_tweet_job cfg w self = (self, [], Finished)"
  using assms by (simp add: post_tweet_job_def)

theorem post_tweet_job_limit_reached_witness:
  "mk_time (config_get (posting_hours_start default_config) 9) = Inr (time_of_day 9 0 0 0) \<and>
   mk_time (config_get (posting_hours_end default_config) 21) = Inr (time_of_day 21 0 0 0) \<and>
   within_posting_hours (time_of_day 9 0 0 0) (now (obliging_world (time_of_day 12 30 0 0) []))
     (time_of_day 21 0 0 0) \<and>
   posts_today (fresh_scheduler\<lparr>posts_today := 10\<rparr>)
     \<ge> config_get (max_posts_per_day default_config) 10 \<and>
   post_tweet_job default_config (obliging_world (time_of_day 12 30 0 0) [])
       (fresh_scheduler\<lparr>posts_today := 10\<rparr>) =
     (fresh_scheduler\<lparr>posts_today := 10\<rparr>, [], Finished)"
proof -
  have h1: "mk_time (config_get (posting_hours_start default_config) 9) = Inr (time_of_day 9 0 0 0)"
    by (simp add: post_job_eval)
  have h2: "mk_time (config_get (posting_hours_end default_config) 21) = Inr (time_of_day 21 0 0 0)"
    by (simp add: post_job_eval)
  have h3: "within_posting_hours (time_of_day 9 0 0 0)
              (now (obliging_world (time_of_day 12 30 0 0) [])) (time_of_day 21 0 0 0)"
    by (simp add: post_job_eval)
  have h4: "posts_today (fresh_scheduler\<lparr>posts_today := 10\<rparr>)
              \<ge> config_get (max_posts_per_day default_config) 10"
    by (simp add: post_job_eval)
  from post_tweet_job_limit_reached [OF h1 h2 h3 h4] h1 h2 h3 h4
  show ?thesis by simp
qed

text \<open>The same firing one post below the limit does generate and post.\<close>

lemma post_tweet_job_below_limit:
  "post_tweet_job default_config (obliging_world (time_of_day 12 30 0 0) [])
       (fresh_scheduler\<lparr>posts_today := 9\<rparr>) =
     (\<lparr>posts_today = 10, last_mention_id = None\<rparr>,
      [(GenerateTweetIdeas 3, fresh_scheduler\<lparr>posts_today := 9\<rparr>),
       (GenerateTweet None, fresh_scheduler\<lparr>posts_today := 9\<rparr>),
       (PostTweet (str ''hello''), fresh_scheduler\<lparr>posts_today := 9\<rparr>)], Finished)"
  by (simp add: post_job_eval str_def)

section \<open>Properties of \<open>_schedule_posting\<close>\<close>

lemma bitlen_numeral: "bitlen (numeral n) = bitlen (numeral n div 2) + 1"
  by (subst compute_bitlen) simp

lemma bitlen_1: "bitlen 1 = 1"
  by (subst compute_bitlen) (simp add: bitlen_zero)

lemma floor_rat_numeral: "\<lfloor>numeral a / numeral b :: rat\<rfloor> = numeral a div numeral b"
  by (metis floor_divide_of_int_eq of_int_numeral)

lemma ceiling_rat_numeral: "\<lceil>numeral a / numeral b :: rat\<rceil> = - (- numeral a div numeral b)"
  by (metis ceiling_def floor_divide_of_int_eq minus_divide_left of_int_minus of_int_numeral)

lemmas fl_eval =
  fl_def ilog2_def pow2_def Let_def bitlen_numeral bitlen_1 floor_rat_numeral ceiling_rat_numeral

text \<open>The literals \<open>0.8\<close> and \<open>1.2\<close> as binary64 numbers, and \<open>float(60)\<close>.\<close>

lemma fl_4_5: "fl (4 / 5) = 7205759403792794 / 9007199254740992"
  by (simp add: fl_eval)

lemma fl_6_5: "fl (6 / 5) = 5404319552844595 / 4503599627370496"
  by (simp add: fl_eval)

lemma fl_60: "fl 60 = 60"
  by (simp add: fl_eval)

lemma int_60_times_0_8: "int_mul_float 60 (fl (4 / 5)) = Inr 48"
  unfolding fl_4_5
  by (simp add: int_mul_float_def float_of_int_def fl_60 overflows_def int_of_float_def fl_eval)

lemma int_60_times_1_2: "int_mul_float 60 (fl (6 / 5)) = Inr 72"
  unfolding fl_6_5
  by (simp add: int_mul_float_def float_of_int_def fl_60 overflows_def int_of_float_def fl_eval)

lemma posting_intervals_12_9_21: "posting_intervals 12 9 21 = Inr (Some (60, 48, 72))"
  by (simp add: posting_intervals_def int_60_times_0_8 int_60_times_1_2)

text \<open>
  The uniform distribution on the integers from \<open>a\<close> to \<open>b\<close> is a probability distribution:
  no probability is negative and the probabilities of the values from \<open>a\<close> to \<open>b\<close> add up to
  \<open>1\<close>.
\<close>

lemma uniform_int_nonneg: "a \<le> b \<Longrightarrow> 0 \<le> uniform_int a b v"
  by (simp add: uniform_int_def)

lemma uniform_int_sum: "a \<le> b \<Longrightarrow> (\<Sum>v = a..b. uniform_int a b v) = 1"
proof -
  assume "a \<le> b"
  have "(\<Sum>v = a..b. uniform_int a b v) = (\<Sum>v = a..b. 1 / of_int (b - a + 1))"
    by (rule sum.cong) (simp_all add: uniform_int_def)
  also have "\<dots> = of_nat (card {a..b}) * (1 / of_int (b - a + 1))"
    by simp
  also from \<open>a \<le> b\<close> have "\<dots> = 1"
    by simp
  finally show ?thesis .
qed

lemma schedule_posting_12_9_21:
  assumes "posting_hours_start cfg = Some 9" and "posting_hours_end cfg = Some 21"
    and "max_posts_per_day cfg = Some 12"
  shows "schedule_posting cfg = Inr (Some (uniform_int 48 72))"
  using assms
  by (simp add: schedule_posting_def config_get_def posting_intervals_12_9_21 randint_def)

text \<open>
  C9. With posting hours 9 to 21 and 12 posts per day the base interval is 60 minutes and
  the bounds are 48 and 72; the interval given to the trigger is drawn uniformly from
  the integers 48 to 72: each of these 25 values has probability \<open>1 / 25\<close>, every other
  value has probability \<open>0\<close>, and the probabilities add up to \<open>1\<close>.
\<close>

theorem schedule_posting_interval_uniform:
  assumes "posting_hours_start cfg = Some 9" and "posting_hours_end cfg = Some 21"
    and "max_posts_per_day cfg = Some 12"
  shows "posting_intervals 12 9 21 = Inr (Some (60, 48, 72)) \<and>
         (\<exists>d. schedule_posting cfg = Inr (Some d) \<and>
              (\<forall>v. d v = (if 48 \<le> v \<and> v \<le> 72 then 1 / 25 else 0)) \<and>
              (\<Sum>v = 48..72. d v) = 1)"
proof (intro conjI exI)
  show "posting_intervals 12 9 21 = Inr (Some (60, 48, 72))"
    by (rule posting_intervals_12_9_21)
  show "schedule_posting cfg = Inr (Some (uniform_int 48 72))"
    using assms by (rule schedule_posting_12_9_21)
  show "\<forall>v. uniform_int 48 72 v = (if 48 \<le> v \<and> v \<le> 72 then 1 / 25 else 0)"
    by (simp add: uniform_int_def)
  show "(\<Sum>v = 48..72. uniform_int 48 72 v) = 1"
    by (rule uniform_int_sum) simp
qed

theorem schedule_posting_interval_uniform_witness:
  "posting_hours_start twelve_posts_config = Some 9 \<and>
   posting_hours_end twelve_posts_config = Some 21 \<and>
   max_posts_per_day twelve_posts_config = Some 12 \<and>
   posting_intervals 12 9 21 = Inr (Some (60, 48, 72)) \<and>
   (\<exists>d. schedule_posting twelve_posts_config = Inr (Some d) \<and>
        (\<forall>v. d v = (if 48 \<le> v \<and> v \<le> 72 then 1 / 25 else 0)) \<and>
        (\<Sum>v = 48..72. d v) = 1)"
proof -
  have h1: "posting_hours_start twelve_posts_config = Some 9"
    and h2: "posting_hours_end twelve_posts_config = Some 21"
    and h3: "max_posts_per_day twelve_posts_config = Some 12"
    by (simp_all add: twelve_posts_config_def default_config_def)
  from schedule_posting_interval_uniform [OF h1 h2 h3] h1 h2 h3 show ?thesis by blast
qed

text \<open>
  Other settings give other bounds, and hours that leave no window give no job: the
  bounds above are computed, not fixed.
\<close>

lemma fl_72: "fl 72 = 72"
  by (simp add: fl_eval)

lemma int_72_times_0_8: "int_mul_float 72 (fl (4 / 5)) = Inr 57"
  unfolding fl_4_5
  by (simp add: int_mul_float_def float_of_int_def fl_72 overflows_def int_of_float_def fl_eval)

lemma int_72_times_1_2: "int_mul_float 72 (fl (6 / 5)) = Inr 86"
  unfolding fl_6_5
  by (simp add: int_mul_float_def float_of_int_def fl_72 overflows_def int_of_float_def fl_eval)

lemma posting_intervals_10_9_21: "posting_intervals 10 9 21 = Inr (Some (72, 57, 86))"
  by (simp add: posting_intervals_def int_72_times_0_8 int_72_times_1_2)

lemma posting_intervals_no_window: "posting_intervals 12 21 9 = Inr None"
  by (simp add: posting_intervals_def)

lemma posting_intervals_no_posts: "posting_intervals 0 9 21 = Inl ZeroDivisionError"
  by (simp add: posting_intervals_def)

section \<open>Properties of \<open>_monitor_and_reply_job\<close>\<close>

lemma replies_after_cursor_append:
  "replies_after_cursor newest (lg @ lg') \<longleftrightarrow>
     replies_after_cursor newest lg \<and> replies_after_cursor newest lg'"
  by (simp add: replies_after_cursor_def)

lemma replies_after_cursor_Cons:
  "replies_after_cursor newest ((c, s) # lg) \<longleftrightarrow>
     (is_reply_call c \<longrightarrow> last_mention_id s = Some newest) \<and> replies_after_cursor newest lg"
  by (simp add: replies_after_cursor_def)

lemma replies_after_cursor_Nil: "replies_after_cursor newest []"
  by (simp add: replies_after_cursor_def)

lemmas replies_after_cursor_snoc =
  replies_after_cursor_append replies_after_cursor_Cons replies_after_cursor_Nil

lemma reply_to_mention_log:
  assumes "last_mention_id self = Some newest" and "replies_after_cursor newest lg"
  shows "replies_after_cursor newest (fst (reply_to_mention w self lg m))"
  using assms
  by (simp add: reply_to_mention_def Let_def replies_after_cursor_snoc
      split: option.splits outcome.splits)

lemma reply_to_mentions_log:
  assumes "last_mention_id self = Some newest"
  shows "replies_after_cursor newest lg \<Longrightarrow>
           replies_after_cursor newest (fst (reply_to_mentions w self lg ms))"
proof (induction ms arbitrary: lg)
  case Nil
  then show ?case by simp
next
  case (Cons m ms)
  have step: "replies_after_cursor newest (fst (reply_to_mention w self lg m))"
    using assms Cons.prems by (rule reply_to_mention_log)
  obtain lg' e where r: "reply_to_mention w self lg m = (lg', e)"
    by (cases "reply_to_mention w self lg m")
  with step have lg': "replies_after_cursor newest lg'" by simp
  show ?case
  proof (cases "e = Escaped")
    case True
    with r lg' show ?thesis by simp
  next
    case False
    then have "reply_to_mentions w self lg (m # ms) = reply_to_mentions w self lg' ms"
      using r by (cases e) simp_all
    with Cons.IH [OF lg'] show ?thesis by simp
  qed
qed

lemma timeline_loop_log:
  assumes "last_mention_id self = Some newest"
  shows "replies_after_cursor newest lg \<Longrightarrow>
           replies_after_cursor newest (fst (timeline_loop cfg w self mx sent lg ts))"
proof (induction ts arbitrary: lg sent)
  case Nil
  then show ?case by simp
next
  case (Cons t ts)
  then show ?case
    using assms
    by (auto simp: Let_def replies_after_cursor_snoc split: option.splits outcome.splits)
qed

lemma monitor_timeline_log:
  assumes "last_mention_id self = Some newest" and "replies_after_cursor newest lg"
  shows "replies_after_cursor newest (fst (monitor_timeline cfg w self lg))"
  using assms timeline_loop_log [OF assms(1), of "lg @ [(GetHomeTimeline 20, self)]"]
  by (simp add: monitor_timeline_def Let_def replies_after_cursor_snoc is_reply_call_def
      split: outcome.splits)

text \<open>
  C10. In a firing whose fetched mentions are not empty (the first one having an id),
  \<open>last_mention_id\<close> is that id after the firing, however the firing ends, and every call
  that generates or submits a reply in the firing was made with \<open>last_mention_id\<close> already
  set to it.
\<close>

theorem monitor_job_sets_cursor_first:
  assumes "get_mentions w [] (last_mention_id self) 10 = Returns mentions"
    and "mentions \<noteq> []" and "hd mentions ''id'' = Some newest"
  shows "last_mention_id (fst (monitor_and_reply_job cfg w self)) = Some newest \<and>
         replies_after_cursor newest (fst (snd (monitor_and_reply_job cfg w self)))"
proof -
  let ?self' = "self\<lparr>last_mention_id := Some newest\<rparr>"
  let ?lg = "[(GetMentions (last_mention_id self) 10, self)]"
  have c: "last_mention_id ?self' = Some newest" by simp
  have lg0: "replies_after_cursor newest ?lg"
    by (simp add: replies_after_cursor_def is_reply_call_def)
  obtain lg' e where r: "reply_to_mentions w ?self' ?lg mentions = (lg', e)"
    by (cases "reply_to_mentions w ?self' ?lg mentions")
  from reply_to_mentions_log [OF c lg0, of w mentions] r
  have lg': "replies_after_cursor newest lg'" by simp
  show ?thesis
  proof (cases "e = Escaped")
    case True
    with assms r lg' show ?thesis
      by (simp add: monitor_and_reply_job_def Let_def)
  next
    case False
    then have "monitor_and_reply_job cfg w self =
                 after_timeline ?self' (monitor_timeline cfg w ?self' lg')"
      using assms r by (cases e) (simp_all add: monitor_and_reply_job_def Let_def)
    with monitor_timeline_log [OF c lg', of cfg w] show ?thesis
      by (simp add: after_timeline_def)
  qed
qed

theorem monitor_job_sets_cursor_first_witness:
  "get_mentions (obliging_world (time_of_day 12 0 0 0) one_mention) []
       (last_mention_id fresh_scheduler) 10 = Returns one_mention \<and>
   one_mention \<noteq> [] \<and> hd one_mention ''id'' = Some (str ''42'') \<and>
   last_mention_id (fst (monitor_and_reply_job default_config
       (obliging_world (time_of_day 12 0 0 0) one_mention) fresh_scheduler)) = Some (str ''42'') \<and>
   replies_after_cursor (str ''42'') (fst (snd (monitor_and_reply_job default_config
       (obliging_world (time_of_day 12 0 0 0) one_mention) fresh_scheduler)))"
proof -
  have h1: "get_mentions (obliging_world (time_of_day 12 0 0 0) one_mention) []
       (last_mention_id fresh_scheduler) 10 = Returns one_mention"
    by (simp add: obliging_world_def)
  have h2: "one_mention \<noteq> []" by (simp add: one_mention_def)
  have h3: "hd one_mention ''id'' = Some (str ''42'')" by (simp add: one_mention_def)
  from monitor_job_sets_cursor_first [OF h1 h2 h3, of default_config] h1 h2 h3
  show ?thesis by simp
qed

text \<open>The firing of the witness, call by call.\<close>

lemma monitor_job_one_mention:
  "monitor_and_reply_job default_config (obliging_world (time_of_day 12 0 0 0) one_mention)
       fresh_scheduler =
     (\<lparr>posts_today = 0, last_mention_id = Some (str ''42'')\<rparr>,
      [(GetMentions None 10, fresh_scheduler),
       (GenerateReply (str ''hi there'') None,
          \<lparr>posts_today = 0, last_mention_id = Some (str ''42'')\<rparr>),
       (ReplyToTweet (str ''42'') (str ''thanks''),
          \<lparr>posts_today = 0, last_mention_id = Some (str ''42'')\<rparr>),
       (GetHomeTimeline 20, \<lparr>posts_today = 0, last_mention_id = Some (str ''42'')\<rparr>)],
      Finished)"
  by (simp add: monitor_and_reply_job_def obliging_world_def one_mention_def fresh_scheduler_def
      reply_to_mention_def monitor_timeline_def after_timeline_def Let_def str_def
      default_config_def config_get_def)

text \<open>
  When generating the first reply raises \<open>SystemExit\<close>, the loop over the mentions and the
  job are left at once; the cursor was set before.
\<close>

lemma monitor_job_loop_left:
  "monitor_and_reply_job default_config (exiting_world (time_of_day 12 0 0 0) one_mention)
       fresh_scheduler =
     (\<lparr>posts_today = 0, last_mention_id = Some (str ''42'')\<rparr>,
      [(GetMentions None 10, fresh_scheduler),
       (GenerateReply (str ''hi there'') None,
          \<lparr>posts_today = 0, last_mention_id = Some (str ''42'')\<rparr>)],
      Escaped)"
  by (simp add: monitor_and_reply_job_def exiting_world_def obliging_world_def one_mention_def
      fresh_scheduler_def reply_to_mention_def Let_def str_def)

end
